theory Spec2Isabelle
  imports Main
begin

section \<open>The etcd v3 engine of vulcand (engine/etcdv3ng/etcd.go)\<close>

text \<open>
  A shallow embedding of the engine: the key-path helpers, the snapshot parser, the
  entity operations on the store, the change classifier and the watch loop.
  Go strings are byte strings, modelled as \<open>string\<close> (a list of 8-bit characters).
\<close>

subsection \<open>The functions of package strings that the engine calls\<close>

text \<open>\<open>strings.HasPrefix s p\<close>.\<close>

fun HasPrefix :: "string \<Rightarrow> string \<Rightarrow> bool" where
  "HasPrefix s [] = True"
| "HasPrefix [] (p # ps) = False"
| "HasPrefix (c # cs) (p # ps) = (c = p \<and> HasPrefix cs ps)"

text \<open>\<open>strings.Index s sub\<close>: the index of the first occurrence of \<open>sub\<close>, or \<open>-1\<close>.\<close>

fun strings_Index :: "string \<Rightarrow> string \<Rightarrow> int" where
  "strings_Index [] sub = (if sub = [] then 0 else -1)"
| "strings_Index (c # cs) sub =
     (if HasPrefix (c # cs) sub then 0
      else (let r = strings_Index cs sub in if r = -1 then -1 else r + 1))"

text \<open>\<open>strings.LastIndex s sub\<close>: the index of the last occurrence of \<open>sub\<close>, or \<open>-1\<close>.\<close>

fun strings_LastIndex :: "string \<Rightarrow> string \<Rightarrow> int" where
  "strings_LastIndex [] sub = (if sub = [] then 0 else -1)"
| "strings_LastIndex (c # cs) sub =
     (let r = strings_LastIndex cs sub in
      if r \<noteq> -1 then r + 1
      else if HasPrefix (c # cs) sub then 0 else -1)"

text \<open>\<open>strings.Join elems sep\<close>.\<close>

fun strings_Join :: "string list \<Rightarrow> string \<Rightarrow> string" where
  "strings_Join [] sep = []"
| "strings_Join [a] sep = a"
| "strings_Join (a # b # rest) sep = a @ sep @ strings_Join (b # rest) sep"

subsection \<open>Key paths\<close>

text \<open>\<open>suffix\<close>: the text after the last slash, the whole key when it has none.\<close>

definition suffix :: "string \<Rightarrow> string" where
  "suffix key =
     (let lastSlashIdx = strings_LastIndex key ''/'' in
      if lastSlashIdx = -1 then key else drop (nat (lastSlashIdx + 1)) key)"

text \<open>\<open>prefix\<close>: the text before the last slash, the whole key when it has none.\<close>

definition prefix :: "string \<Rightarrow> string" where
  "prefix key =
     (let lastSlashIdx = strings_LastIndex key ''/'' in
      if lastSlashIdx = -1 then key else take (nat lastSlashIdx) key)"

subsection \<open>Errors\<close>

text \<open>
  One type for Go's \<open>error\<close> values: the three error structs of package engine, the two
  sentinel errors of rpctypes that the engine compares against, every other error of
  the etcd client, the errors of the decoders, and the errors the engine builds itself
  with \<open>fmt.Errorf\<close> and \<open>errors.New\<close>.
\<close>

datatype error =
    InvalidFormatError string
  | NotFoundError string
  | AlreadyExistsError string
  | ErrEmptyKey
  | ErrDuplicateKey
  | ClientError string
  | DecodeError string
  | Errorf string

text \<open>The text of \<open>e.Error()\<close> for the two sentinel errors.\<close>

definition ErrEmptyKey_text :: string where
  "ErrEmptyKey_text = ''etcdserver: key is not provided''"

definition ErrDuplicateKey_text :: string where
  "ErrDuplicateKey_text = ''etcdserver: duplicate key given in txn request''"


text \<open>\<open>convertErr\<close> on a non-nil error; \<open>convertErr_opt\<close> includes the nil case.\<close>

fun convertErr :: "error \<Rightarrow> error" where
  "convertErr ErrEmptyKey = NotFoundError ErrEmptyKey_text"
| "convertErr ErrDuplicateKey = AlreadyExistsError ErrDuplicateKey_text"
| "convertErr e = e"

fun convertErr_opt :: "error option \<Rightarrow> error option" where
  "convertErr_opt None = None"
| "convertErr_opt (Some e) = Some (convertErr e)"

subsection \<open>The entities of package engine\<close>

text \<open>
  The structs of package engine are declared outside this file. They carry the
  attributes of the data model: identifiers as strings, and the remaining settings as
  an uninterpreted body. The engine itself reads only the identifiers, the backend
  reference of a frontend and the settings of a host.
\<close>

datatype HostKey = HostKey string
datatype ListenerKey = ListenerKey string
datatype FrontendKey = FrontendKey string
datatype BackendKey = BackendKey string

text \<open>A middleware key is its id and the key of its frontend; a server key likewise.\<close>

datatype MiddlewareKey = MiddlewareKey string FrontendKey
datatype ServerKey = ServerKey string BackendKey

record KeyPair =
  Key_pem :: string
  Cert_pem :: string

record HostSettings =
  hs_Default :: bool
  hs_KeyPair :: "KeyPair option"
  hs_OCSP :: string

record Host =
  h_Name :: string
  h_Settings :: HostSettings

record Listener =
  l_Id :: string
  l_Body :: string

record Frontend =
  f_Id :: string
  f_BackendId :: string
  f_Route :: string

record Middleware =
  m_Id :: string
  m_Type :: string
  m_Body :: string

record Backend =
  b_Id :: string
  b_Body :: string

record Server =
  s_Id :: string
  s_URL :: string

record FrontendSpec =
  fs_Frontend :: Frontend
  fs_Middlewares :: "Middleware list"

record BackendSpec =
  bs_Backend :: Backend
  bs_Servers :: "Server list"

record Snapshot =
  Index :: int
  FrontendSpecs :: "FrontendSpec list"
  BackendSpecs :: "BackendSpec list"
  Hosts :: "Host list"
  Listeners :: "Listener list"

text \<open>The engine's own structs \<open>host\<close> and \<open>hostSettings\<close>: a host as it is stored.\<close>

record hostSettings =
  Default :: bool
  KeyPair :: string
  OCSP :: string

record host =
  Name :: string
  Settings :: hostSettings

text \<open>The change events of package engine that the classifier builds.\<close>

datatype change =
    HostUpserted Host
  | HostDeleted HostKey
  | ListenerUpserted Listener
  | ListenerDeleted ListenerKey
  | FrontendUpserted Frontend
  | FrontendDeleted FrontendKey
  | MiddlewareUpserted FrontendKey Middleware
  | MiddlewareDeleted MiddlewareKey
  | BackendUpserted Backend
  | BackendDeleted BackendKey
  | ServerUpserted BackendKey Server
  | ServerDeleted ServerKey

subsection \<open>The etcd client\<close>

text \<open>A record of the store (\<open>mvccpb.KeyValue\<close>) and the struct \<open>Pair\<close> of the engine.\<close>

record KeyValue =
  Key :: string
  Value :: string


datatype EventType = PUT | DELETE | OtherType int

record Event =
  Type :: EventType
  Kv :: KeyValue
  PrevKv :: "KeyValue option"

text \<open>
  A watch response: the flag \<open>Canceled\<close>, the value of its method \<open>Err()\<close>
  and its events.
\<close>

record WatchResponse =
  Canceled :: bool
  Err :: "error option"
  Events :: "Event list"

record GetResponse =
  Revision :: int
  Kvs :: "KeyValue list"

text \<open>The requests the engine sends, and the lines it logs.\<close>

datatype request =
    ReqGet string
  | ReqGetPrefix string
  | ReqPut string string int
  | ReqDeletePrefix string
  | ReqGrant int
  | ReqWatch string int

datatype log_entry =
    Warningf string error
  | Errorf_log string error
  | Infof string
  | Infof_event Event
  | Infof_change change

text \<open>
  The world outside the engine: the records of the store, its revision, the lease
  counter, the outcome of the coming requests (\<open>Some e\<close>: the request fails with \<open>e\<close>
  and leaves the store as it is; \<open>None\<close>, or no entry left: it is served), the requests
  sent so far and the log.
\<close>

record etcd =
  kvs :: "KeyValue list"
  revision :: int
  leases :: int
  faults :: "error option list"
  calls :: "request list"
  logged :: "log_entry list"

text \<open>Sending a request records it and takes the next outcome.\<close>

definition send :: "request \<Rightarrow> etcd \<Rightarrow> error option \<times> etcd" where
  "send r st =
     (case faults st of
        [] \<Rightarrow> (None, st\<lparr>calls := calls st @ [r]\<rparr>)
      | f # fs \<Rightarrow> (f, st\<lparr>faults := fs, calls := calls st @ [r]\<rparr>))"

definition log :: "log_entry \<Rightarrow> etcd \<Rightarrow> etcd" where
  "log l st = st\<lparr>logged := logged st @ [l]\<rparr>"

text \<open>Keys are ordered as byte strings (\<open>SortByKey\<close>, \<open>SortAscend\<close>).\<close>

fun key_less :: "string \<Rightarrow> string \<Rightarrow> bool" where
  "key_less [] [] = False"
| "key_less [] (b # bs) = True"
| "key_less (a # as) [] = False"
| "key_less (a # as) (b # bs) =
     (if a = b then key_less as bs else (of_char a :: nat) < of_char b)"

fun insertByKey :: "KeyValue \<Rightarrow> KeyValue list \<Rightarrow> KeyValue list" where
  "insertByKey x [] = [x]"
| "insertByKey x (y # ys) =
     (if key_less (Key y) (Key x) then y # insertByKey x ys else x # y # ys)"

definition sortByKey :: "KeyValue list \<Rightarrow> KeyValue list" where
  "sortByKey xs = foldr insertByKey xs []"

text \<open>\<open>client.Get(ctx, key)\<close>: the record stored under exactly this key.\<close>

definition Get :: "string \<Rightarrow> etcd \<Rightarrow> (error + GetResponse) \<times> etcd" where
  "Get key st =
     (case send (ReqGet key) st of
        (Some e, st') \<Rightarrow> (Inl e, st')
      | (None, st') \<Rightarrow>
          (Inr \<lparr>Revision = revision st', Kvs = filter (\<lambda>kv. Key kv = key) (kvs st')\<rparr>, st'))"

text \<open>
  \<open>client.Get(ctx, key, WithPrefix(), WithSort(SortByKey, SortAscend))\<close>: every
  record whose key starts with \<open>key\<close>, in ascending key order.
\<close>

definition GetPrefix :: "string \<Rightarrow> etcd \<Rightarrow> (error + GetResponse) \<times> etcd" where
  "GetPrefix key st =
     (case send (ReqGetPrefix key) st of
        (Some e, st') \<Rightarrow> (Inl e, st')
      | (None, st') \<Rightarrow>
          (Inr \<lparr>Revision = revision st',
                Kvs = sortByKey (filter (\<lambda>kv. HasPrefix (Key kv) key) (kvs st'))\<rparr>, st'))"

text \<open>\<open>client.Grant(ctx, ttl)\<close>: a fresh lease id.\<close>

definition Grant :: "int \<Rightarrow> etcd \<Rightarrow> (error + int) \<times> etcd" where
  "Grant ttl st =
     (case send (ReqGrant ttl) st of
        (Some e, st') \<Rightarrow> (Inl e, st')
      | (None, st') \<Rightarrow> (Inr (leases st' + 1), st'\<lparr>leases := leases st' + 1\<rparr>))"

text \<open>\<open>client.Put(ctx, key, val, WithLease(id))\<close>: replaces the record of the key.\<close>

definition Put :: "string \<Rightarrow> string \<Rightarrow> int \<Rightarrow> etcd \<Rightarrow> error option \<times> etcd" where
  "Put key val lease st =
     (case send (ReqPut key val lease) st of
        (Some e, st') \<Rightarrow> (Some e, st')
      | (None, st') \<Rightarrow>
          (None, st'\<lparr>kvs := filter (\<lambda>kv. Key kv \<noteq> key) (kvs st') @ [\<lparr>Key = key, Value = val\<rparr>],
                     revision := revision st' + 1\<rparr>))"

text \<open>
  \<open>client.Delete(ctx, key, WithPrefix())\<close>: removes every record whose key starts
  with \<open>key\<close>; the revision moves only when a record was removed.
\<close>

definition DeletePrefix :: "string \<Rightarrow> etcd \<Rightarrow> error option \<times> etcd" where
  "DeletePrefix key st =
     (case send (ReqDeletePrefix key) st of
        (Some e, st') \<Rightarrow> (Some e, st')
      | (None, st') \<Rightarrow>
          (None, st'\<lparr>kvs := filter (\<lambda>kv. \<not> HasPrefix (Key kv) key) (kvs st'),
                     revision := (if \<exists>kv \<in> set (kvs st'). HasPrefix (Key kv) key
                                  then revision st' + 1 else revision st')\<rparr>))"

subsection \<open>The engine\<close>

text \<open>
  The struct \<open>ng\<close>: the root key, the secret box of its options, and the functions it
  calls in packages engine, secret and encoding/json, which lie outside this file and
  are parameters here. Each decoder takes the payload (and the id the engine passes)
  and returns an error or the decoded value; each encoder returns an error or the
  bytes to store. The plugin registry is part of the decoders of frontends and
  middlewares.
\<close>

record secretBox =
  Seal :: "string \<Rightarrow> error + string"
  Open :: "string \<Rightarrow> error + string"

record ng =
  etcdKey :: string
  Box :: "secretBox option"
  FrontendFromJSON :: "string \<Rightarrow> string \<Rightarrow> error + Frontend"
  MiddlewareFromJSON :: "string \<Rightarrow> string \<Rightarrow> error + Middleware"
  BackendFromJSON :: "string \<Rightarrow> string \<Rightarrow> error + Backend"
  ServerFromJSON :: "string \<Rightarrow> string \<Rightarrow> error + Server"
  ListenerFromJSON :: "string \<Rightarrow> string \<Rightarrow> error + Listener"
  NewHost :: "string \<Rightarrow> HostSettings \<Rightarrow> error + Host"
  Unmarshal_host :: "string \<Rightarrow> error + host"
  Unmarshal_KeyPair :: "string \<Rightarrow> error + KeyPair option"
  SealedValueFromJSON :: "string \<Rightarrow> error + string"
  SealedValueToJSON :: "string \<Rightarrow> error + string"
  Marshal_host :: "host \<Rightarrow> error + string"
  Marshal_KeyPair :: "KeyPair \<Rightarrow> error + string"
  Marshal_Listener :: "Listener \<Rightarrow> error + string"
  Marshal_Frontend :: "Frontend \<Rightarrow> error + string"
  Marshal_Middleware :: "Middleware \<Rightarrow> error + string"
  Marshal_Backend :: "Backend \<Rightarrow> error + string"
  Marshal_Server :: "Server \<Rightarrow> error + string"

definition path :: "ng \<Rightarrow> string list \<Rightarrow> string" where
  "path n keys = strings_Join (etcdKey n # keys) ''/''"

subsection \<open>Parsing a listing\<close>

text \<open>\<open>filterBySuffix\<close> keeps the records whose key has the given text at index 0.\<close>

definition filterBySuffix :: "KeyValue list \<Rightarrow> string \<Rightarrow> KeyValue list" where
  "filterBySuffix keys suf = filter (\<lambda>key. strings_Index (Key key) suf = 0) keys"

text \<open>
  The inner loop of \<open>parseFrontends\<close> over the records below one frontend; the
  accumulator is the slice \<open>middlewares\<close>.
\<close>

fun parseMiddlewares ::
  "ng \<Rightarrow> KeyValue list \<Rightarrow> Middleware list \<Rightarrow> error + Middleware list" where
  "parseMiddlewares n [] middlewares = Inr middlewares"
| "parseMiddlewares n (subKeyValue # rest) middlewares =
     (if suffix (prefix (Key subKeyValue)) = ''middlewares'' then
        (case MiddlewareFromJSON n (Value subKeyValue) (suffix (Key subKeyValue)) of
           Inl err \<Rightarrow> Inl err
         | Inr middleware \<Rightarrow> parseMiddlewares n rest (middlewares @ [middleware]))
      else parseMiddlewares n rest middlewares)"

text \<open>
  The outer loop of \<open>parseFrontends\<close>: \<open>keyValues\<close> is the whole argument, the third
  argument the variadic \<open>skipMiddlewares\<close>, the fourth the records still to visit and
  the last the slice \<open>frontendSpecs\<close>. The \<open>break\<close> leaves the loop, so the function
  returns the slice as it is at that point.
\<close>

fun parseFrontends_loop ::
  "ng \<Rightarrow> KeyValue list \<Rightarrow> bool list \<Rightarrow> KeyValue list \<Rightarrow> FrontendSpec list
     \<Rightarrow> error + FrontendSpec list" where
  "parseFrontends_loop n keyValues skipMiddlewares [] frontendSpecs = Inr frontendSpecs"
| "parseFrontends_loop n keyValues skipMiddlewares (keyValue # rest) frontendSpecs =
     (if suffix (prefix (Key keyValue)) = ''frontend'' then
        (case FrontendFromJSON n (Value keyValue) (suffix (Key keyValue)) of
           Inl err \<Rightarrow> Inl err
         | Inr frontend \<Rightarrow>
             if length skipMiddlewares = 1 \<and> skipMiddlewares = [True] then Inr frontendSpecs
             else
               (case parseMiddlewares n (filterBySuffix keyValues (Key keyValue)) [] of
                  Inl err \<Rightarrow> Inl err
                | Inr middlewares \<Rightarrow>
                    parseFrontends_loop n keyValues skipMiddlewares rest
                      (frontendSpecs @ [\<lparr>fs_Frontend = frontend, fs_Middlewares = middlewares\<rparr>])))
      else parseFrontends_loop n keyValues skipMiddlewares rest frontendSpecs)"

definition parseFrontends ::
  "ng \<Rightarrow> KeyValue list \<Rightarrow> bool list \<Rightarrow> error + FrontendSpec list" where
  "parseFrontends n keyValues skipMiddlewares =
     parseFrontends_loop n keyValues skipMiddlewares keyValues []"

fun parseServers :: "ng \<Rightarrow> KeyValue list \<Rightarrow> Server list \<Rightarrow> error + Server list" where
  "parseServers n [] servers = Inr servers"
| "parseServers n (subKeyValue # rest) servers =
     (if suffix (prefix (Key subKeyValue)) = ''servers'' then
        (case ServerFromJSON n (Value subKeyValue) (suffix (Key subKeyValue)) of
           Inl err \<Rightarrow> Inl err
         | Inr server \<Rightarrow> parseServers n rest (servers @ [server]))
      else parseServers n rest servers)"

fun parseBackends_loop ::
  "ng \<Rightarrow> KeyValue list \<Rightarrow> bool list \<Rightarrow> KeyValue list \<Rightarrow> BackendSpec list
     \<Rightarrow> error + BackendSpec list" where
  "parseBackends_loop n keyValues skipServers [] backendSpecs = Inr backendSpecs"
| "parseBackends_loop n keyValues skipServers (keyValue # rest) backendSpecs =
     (if suffix (prefix (Key keyValue)) = ''backend'' then
        (case BackendFromJSON n (Value keyValue) (suffix (Key keyValue)) of
           Inl err \<Rightarrow> Inl err
         | Inr backend \<Rightarrow>
             if length skipServers = 1 \<and> skipServers = [True] then Inr backendSpecs
             else
               (case parseServers n (filterBySuffix keyValues (Key keyValue)) [] of
                  Inl err \<Rightarrow> Inl err
                | Inr servers \<Rightarrow>
                    parseBackends_loop n keyValues skipServers rest
                      (backendSpecs @ [\<lparr>bs_Backend = backend, bs_Servers = servers\<rparr>])))
      else parseBackends_loop n keyValues skipServers rest backendSpecs)"

definition parseBackends ::
  "ng \<Rightarrow> KeyValue list \<Rightarrow> bool list \<Rightarrow> error + BackendSpec list" where
  "parseBackends n keyValues skipServers =
     parseBackends_loop n keyValues skipServers keyValues []"

text \<open>\<open>openSealedJSONVal\<close> into a key pair.\<close>

definition openSealedJSONVal :: "ng \<Rightarrow> string \<Rightarrow> error + KeyPair option" where
  "openSealedJSONVal n bytes =
     (case Box n of
        None \<Rightarrow> Inl (Errorf ''need secretbox to open sealed data'')
      | Some box \<Rightarrow>
          (case SealedValueFromJSON n bytes of
             Inl err \<Rightarrow> Inl err
           | Inr sv \<Rightarrow>
               (case Open box sv of
                  Inl err \<Rightarrow> Inl err
                | Inr unsealed \<Rightarrow> Unmarshal_KeyPair n unsealed)))"

definition sealJSONVal :: "ng \<Rightarrow> KeyPair \<Rightarrow> error + string" where
  "sealJSONVal n val =
     (case Box n of
        None \<Rightarrow> Inl (Errorf ''this backend does not support encryption'')
      | Some box \<Rightarrow>
          (case Marshal_KeyPair n val of
             Inl err \<Rightarrow> Inl err
           | Inr bytes \<Rightarrow>
               (case Seal box bytes of
                  Inl err \<Rightarrow> Inl err
                | Inr v \<Rightarrow> SealedValueToJSON n v)))"

text \<open>
  What \<open>parseHosts\<close> and \<open>GetHost\<close> share: opening the key pair of a stored host
  when it has one, and building the host.
\<close>

definition openKeyPair :: "ng \<Rightarrow> host \<Rightarrow> error + KeyPair option" where
  "openKeyPair n sealedHost =
     (if length (KeyPair (Settings sealedHost)) \<noteq> 0
      then openSealedJSONVal n (KeyPair (Settings sealedHost))
      else Inr None)"

definition newHostOf :: "ng \<Rightarrow> string \<Rightarrow> host \<Rightarrow> KeyPair option \<Rightarrow> error + Host" where
  "newHostOf n hostname sealedHost keyPair =
     NewHost n hostname
       \<lparr>hs_Default = Default (Settings sealedHost), hs_KeyPair = keyPair,
        hs_OCSP = OCSP (Settings sealedHost)\<rparr>"

fun parseHosts_loop :: "ng \<Rightarrow> KeyValue list \<Rightarrow> Host list \<Rightarrow> error + Host list" where
  "parseHosts_loop n [] hosts = Inr hosts"
| "parseHosts_loop n (keyValue # rest) hosts =
     (if suffix (prefix (Key keyValue)) = ''host'' then
        (case Unmarshal_host n (Value keyValue) of
           Inl err \<Rightarrow> Inl err
         | Inr sealedHost \<Rightarrow>
             (case openKeyPair n sealedHost of
                Inl err \<Rightarrow> Inl err
              | Inr keyPair \<Rightarrow>
                  (case newHostOf n (suffix (Key keyValue)) sealedHost keyPair of
                     Inl err \<Rightarrow> Inl err
                   | Inr host \<Rightarrow>
                       if h_Name host \<noteq> suffix (Key keyValue)
                       then Inl (Errorf (''Host '' @ suffix (Key keyValue) @ '' parameters missing''))
                       else parseHosts_loop n rest (hosts @ [host]))))
      else parseHosts_loop n rest hosts)"

definition parseHosts :: "ng \<Rightarrow> KeyValue list \<Rightarrow> error + Host list" where
  "parseHosts n keyValues = parseHosts_loop n keyValues []"

fun parseListeners_loop ::
  "ng \<Rightarrow> KeyValue list \<Rightarrow> Listener list \<Rightarrow> error + Listener list" where
  "parseListeners_loop n [] listeners = Inr listeners"
| "parseListeners_loop n (keyValue # rest) listeners =
     (if suffix (prefix (Key keyValue)) = ''listeners'' then
        (case ListenerFromJSON n (Value keyValue) (suffix (Key keyValue)) of
           Inl err \<Rightarrow> Inl err
         | Inr listener \<Rightarrow> parseListeners_loop n rest (listeners @ [listener]))
      else parseListeners_loop n rest listeners)"

definition parseListeners :: "ng \<Rightarrow> KeyValue list \<Rightarrow> error + Listener list" where
  "parseListeners n keyValues = parseListeners_loop n keyValues []"

subsection \<open>The snapshot\<close>

text \<open>
  The loop of \<open>GetSnapshot\<close> over the records of the response: \<open>all\<close> is
  \<open>response.Kvs\<close>, the third argument the records still to visit.
\<close>

fun snapshot_loop ::
  "ng \<Rightarrow> KeyValue list \<Rightarrow> KeyValue list \<Rightarrow> Snapshot \<Rightarrow> error + Snapshot" where
  "snapshot_loop n all [] s = Inr s"
| "snapshot_loop n all (keyValue # rest) s =
     (if suffix (Key keyValue) = ''frontends'' then
        (case parseFrontends n (filterBySuffix all (Key keyValue)) [] of
           Inl err \<Rightarrow> Inl err
         | Inr v \<Rightarrow> snapshot_loop n all rest (s\<lparr>FrontendSpecs := v\<rparr>))
      else if suffix (Key keyValue) = ''backends'' then
        (case parseBackends n (filterBySuffix all (Key keyValue)) [] of
           Inl err \<Rightarrow> Inl err
         | Inr v \<Rightarrow> snapshot_loop n all rest (s\<lparr>BackendSpecs := v\<rparr>))
      else if suffix (Key keyValue) = ''hosts'' then
        (case parseHosts n (filterBySuffix all (Key keyValue)) of
           Inl err \<Rightarrow> Inl err
         | Inr v \<Rightarrow> snapshot_loop n all rest (s\<lparr>Hosts := v\<rparr>))
      else if suffix (Key keyValue) = ''listeners'' then
        (case parseListeners n (filterBySuffix all (Key keyValue)) of
           Inl err \<Rightarrow> Inl err
         | Inr v \<Rightarrow> snapshot_loop n all rest (s\<lparr>Listeners := v\<rparr>))
      else snapshot_loop n all rest s)"

text \<open>
  The snapshot built from a response; the index is the revision converted from
  \<open>int64\<close> to \<open>uint64\<close>.
\<close>

definition snapshotOf :: "ng \<Rightarrow> GetResponse \<Rightarrow> error + Snapshot" where
  "snapshotOf n response =
     snapshot_loop n (Kvs response) (Kvs response)
       \<lparr>Index = Revision response mod 2 ^ 64, FrontendSpecs = [], BackendSpecs = [],
        Hosts = [], Listeners = []\<rparr>"

definition GetSnapshot :: "ng \<Rightarrow> etcd \<Rightarrow> (error + Snapshot) \<times> etcd" where
  "GetSnapshot n st =
     (case GetPrefix (etcdKey n) st of
        (Inl err, st') \<Rightarrow> (Inl err, st')
      | (Inr response, st') \<Rightarrow> (snapshotOf n response, st'))"

subsection \<open>Reading and writing values\<close>

text \<open>
  A \<open>time.Duration\<close> is a number of nanoseconds; \<open>int64(ttl.Seconds())\<close> is its
  number of whole seconds, rounded towards zero.
\<close>

definition Seconds :: "int \<Rightarrow> int" where
  "Seconds ttl = (if ttl < 0 then - ((- ttl) div 1000000000) else ttl div 1000000000)"

definition noTTL :: int where
  "noTTL = 0"

definition getVal :: "string \<Rightarrow> etcd \<Rightarrow> (error + string) \<times> etcd" where
  "getVal key st =
     (case Get key st of
        (Inl err, st') \<Rightarrow> (Inl (convertErr err), st')
      | (Inr response, st') \<Rightarrow>
          (case Kvs response of
             [kv] \<Rightarrow> (Inr (Value kv), st')
           | _ \<Rightarrow> (Inl (NotFoundError ''Key not found''), st')))"

definition setVal :: "string \<Rightarrow> string \<Rightarrow> int \<Rightarrow> etcd \<Rightarrow> error option \<times> etcd" where
  "setVal key val ttl st =
     (case Grant (Seconds ttl) st of
        (Inl err, st') \<Rightarrow> (Some err, st')
      | (Inr lease, st') \<Rightarrow>
          (case Put key val lease st' of (err, st'') \<Rightarrow> (convertErr_opt err, st'')))"

text \<open>\<open>setJSONVal\<close>; the second argument is the result of \<open>json.Marshal(v)\<close>.\<close>

definition setJSONVal ::
  "string \<Rightarrow> error + string \<Rightarrow> int \<Rightarrow> etcd \<Rightarrow> error option \<times> etcd" where
  "setJSONVal key marshalled ttl st =
     (case marshalled of
        Inl err \<Rightarrow> (Some err, st)
      | Inr bytes \<Rightarrow> setVal key bytes ttl st)"

definition deleteKey :: "string \<Rightarrow> etcd \<Rightarrow> error option \<times> etcd" where
  "deleteKey key st = (case DeletePrefix key st of (err, st') \<Rightarrow> (convertErr_opt err, st'))"



subsection \<open>Hosts\<close>

definition GetHost :: "ng \<Rightarrow> HostKey \<Rightarrow> etcd \<Rightarrow> (error + Host) \<times> etcd" where
  "GetHost n key st =
     (case key of HostKey name \<Rightarrow>
      (case getVal (path n [''hosts'', name, ''host'']) st of
         (Inl err, st') \<Rightarrow> (Inl err, st')
       | (Inr val, st') \<Rightarrow>
           (case Unmarshal_host n val of
              Inl err \<Rightarrow> (Inl err, st')
            | Inr host \<Rightarrow>
                (case openKeyPair n host of
                   Inl err \<Rightarrow> (Inl err, st')
                 | Inr keyPair \<Rightarrow> (newHostOf n name host keyPair, st')))))"



definition UpsertHost :: "ng \<Rightarrow> Host \<Rightarrow> etcd \<Rightarrow> error option \<times> etcd" where
  "UpsertHost n h st =
     (if h_Name h = [] then (Some (InvalidFormatError ''hostname can not be empty''), st)
      else
        (let hostKey = path n [''hosts'', h_Name h, ''host''];
             val = \<lparr>Name = h_Name h,
                    Settings = \<lparr>Default = hs_Default (h_Settings h), KeyPair = [],
                                OCSP = hs_OCSP (h_Settings h)\<rparr>\<rparr>
         in case hs_KeyPair (h_Settings h) of
              None \<Rightarrow> setJSONVal hostKey (Marshal_host n val) noTTL st
            | Some keyPair \<Rightarrow>
                (case sealJSONVal n keyPair of
                   Inl err \<Rightarrow> (Some err, st)
                 | Inr bytes \<Rightarrow>
                     setJSONVal hostKey
                       (Marshal_host n (val\<lparr>Settings := (Settings val)\<lparr>KeyPair := bytes\<rparr>\<rparr>))
                       noTTL st)))"

definition DeleteHost :: "ng \<Rightarrow> HostKey \<Rightarrow> etcd \<Rightarrow> error option \<times> etcd" where
  "DeleteHost n key st =
     (case key of HostKey name \<Rightarrow>
      if name = [] then (Some (InvalidFormatError ''hostname can not be empty''), st)
      else deleteKey (path n [''hosts'', name]) st)"

subsection \<open>Listeners\<close>

definition GetListener :: "ng \<Rightarrow> ListenerKey \<Rightarrow> etcd \<Rightarrow> (error + Listener) \<times> etcd" where
  "GetListener n key st =
     (case key of ListenerKey id' \<Rightarrow>
      (case getVal (path n [''listeners'', id']) st of
         (Inl err, st') \<Rightarrow> (Inl err, st')
       | (Inr bytes, st') \<Rightarrow> (ListenerFromJSON n bytes id', st')))"



definition UpsertListener :: "ng \<Rightarrow> Listener \<Rightarrow> etcd \<Rightarrow> error option \<times> etcd" where
  "UpsertListener n listener st =
     (if l_Id listener = [] then (Some (InvalidFormatError ''listener id can not be empty''), st)
      else setJSONVal (path n [''listeners'', l_Id listener]) (Marshal_Listener n listener) noTTL st)"

definition DeleteListener :: "ng \<Rightarrow> ListenerKey \<Rightarrow> etcd \<Rightarrow> error option \<times> etcd" where
  "DeleteListener n key st =
     (case key of ListenerKey id' \<Rightarrow>
      if id' = [] then (Some (InvalidFormatError ''listener id can not be empty''), st)
      else deleteKey (path n [''listeners'', id']) st)"

subsection \<open>Backends and frontends\<close>

definition GetBackend :: "ng \<Rightarrow> BackendKey \<Rightarrow> etcd \<Rightarrow> (error + Backend) \<times> etcd" where
  "GetBackend n key st =
     (case key of BackendKey id' \<Rightarrow>
      (case getVal (path n [''backends'', id', ''backend'']) st of
         (Inl err, st') \<Rightarrow> (Inl err, st')
       | (Inr bytes, st') \<Rightarrow> (BackendFromJSON n bytes id', st')))"

definition GetBackends :: "ng \<Rightarrow> etcd \<Rightarrow> (error + Backend list) \<times> etcd" where
  "GetBackends n st =
     (case GetPrefix (etcdKey n @ ''/backends'') st of
        (Inl err, st') \<Rightarrow> (Inl err, st')
      | (Inr response, st') \<Rightarrow>
          (case parseBackends n (Kvs response) [True] of
             Inl err \<Rightarrow> (Inl err, st')
           | Inr backendSpecs \<Rightarrow> (Inr (map bs_Backend backendSpecs), st')))"

definition UpsertBackend :: "ng \<Rightarrow> Backend \<Rightarrow> etcd \<Rightarrow> error option \<times> etcd" where
  "UpsertBackend n b st =
     (if b_Id b = [] then (Some (InvalidFormatError ''backend id can not be empty''), st)
      else setJSONVal (path n [''backends'', b_Id b, ''backend'']) (Marshal_Backend n b) noTTL st)"

definition GetFrontend :: "ng \<Rightarrow> FrontendKey \<Rightarrow> etcd \<Rightarrow> (error + Frontend) \<times> etcd" where
  "GetFrontend n key st =
     (case key of FrontendKey id' \<Rightarrow>
      (case getVal (path n [''frontends'', id', ''frontend'']) st of
         (Inl err, st') \<Rightarrow> (Inl err, st')
       | (Inr bytes, st') \<Rightarrow> (FrontendFromJSON n bytes id', st')))"

definition GetFrontends :: "ng \<Rightarrow> etcd \<Rightarrow> (error + Frontend list) \<times> etcd" where
  "GetFrontends n st =
     (case GetPrefix (etcdKey n @ ''/frontends'') st of
        (Inl err, st') \<Rightarrow> (Inl err, st')
      | (Inr response, st') \<Rightarrow>
          (case parseFrontends n (Kvs response) [True] of
             Inl err \<Rightarrow> (Inl err, st')
           | Inr frontendSpecs \<Rightarrow> (Inr (map fs_Frontend frontendSpecs), st')))"

definition UpsertFrontend :: "ng \<Rightarrow> Frontend \<Rightarrow> int \<Rightarrow> etcd \<Rightarrow> error option \<times> etcd" where
  "UpsertFrontend n f ttl st =
     (if f_Id f = [] then (Some (InvalidFormatError ''frontend id can not be empty''), st)
      else
        (case GetBackend n (BackendKey (f_BackendId f)) st of
           (Inl err, st1) \<Rightarrow> (Some err, st1)
         | (Inr b, st1) \<Rightarrow>
             (case setJSONVal (path n [''frontends'', f_Id f, ''frontend''])
                     (Marshal_Frontend n f) noTTL st1 of
                (Some err, st2) \<Rightarrow> (Some err, st2)
              | (None, st2) \<Rightarrow>
                  if ttl = 0 then (None, st2)
                  else
                    (case Grant (Seconds ttl) st2 of
                       (Inl err, st3) \<Rightarrow> (Some err, st3)
                     | (Inr lease, st3) \<Rightarrow>
                         (case Put (path n [''frontends'', f_Id f]) [] lease st3 of
                            (err, st4) \<Rightarrow> (convertErr_opt err, st4))))))"

definition DeleteFrontend :: "ng \<Rightarrow> FrontendKey \<Rightarrow> etcd \<Rightarrow> error option \<times> etcd" where
  "DeleteFrontend n fk st =
     (case fk of FrontendKey id' \<Rightarrow>
      if id' = [] then (Some (InvalidFormatError ''frontend id can not be empty''), st)
      else deleteKey (path n [''frontends'', id']) st)"

definition backendUsedBy :: "ng \<Rightarrow> BackendKey \<Rightarrow> etcd \<Rightarrow> (error + Frontend list) \<times> etcd" where
  "backendUsedBy n bk st =
     (case bk of BackendKey id' \<Rightarrow>
      (case GetFrontends n st of
         (Inl err, st') \<Rightarrow> (Inl err, st')
       | (Inr fs, st') \<Rightarrow> (Inr (filter (\<lambda>f. f_BackendId f = id') fs), st')))"

definition DeleteBackend :: "ng \<Rightarrow> BackendKey \<Rightarrow> etcd \<Rightarrow> error option \<times> etcd" where
  "DeleteBackend n bk st =
     (case bk of BackendKey id' \<Rightarrow>
      if id' = [] then (Some (InvalidFormatError ''backend id can not be empty''), st)
      else
        (case backendUsedBy n bk st of
           (Inl err, st') \<Rightarrow> (Some err, st')
         | (Inr fs, st') \<Rightarrow>
             if length fs \<noteq> 0
             then (Some (Errorf (''can not delete backend '' @ id' @ '', it is in use'')), st')
             else (case DeletePrefix (path n [''backends'', id']) st' of
                     (err, st'') \<Rightarrow> (convertErr_opt err, st''))))"

subsection \<open>Middlewares and servers\<close>

definition GetMiddleware :: "ng \<Rightarrow> MiddlewareKey \<Rightarrow> etcd \<Rightarrow> (error + Middleware) \<times> etcd" where
  "GetMiddleware n key st =
     (case key of MiddlewareKey id' (FrontendKey fid) \<Rightarrow>
      (case getVal (path n [''frontends'', fid, ''middlewares'', id']) st of
         (Inl err, st') \<Rightarrow> (Inl err, st')
       | (Inr bytes, st') \<Rightarrow> (MiddlewareFromJSON n bytes id', st')))"



definition UpsertMiddleware ::
  "ng \<Rightarrow> FrontendKey \<Rightarrow> Middleware \<Rightarrow> int \<Rightarrow> etcd \<Rightarrow> error option \<times> etcd" where
  "UpsertMiddleware n fk m ttl st =
     (case fk of FrontendKey fid \<Rightarrow>
      if fid = [] \<or> m_Id m = []
      then (Some (InvalidFormatError ''frontend id and middleware id can not be empty''), st)
      else
        (case GetFrontend n fk st of
           (Inl err, st') \<Rightarrow> (Some err, st')
         | (Inr f, st') \<Rightarrow>
             setJSONVal (path n [''frontends'', fid, ''middlewares'', m_Id m])
               (Marshal_Middleware n m) ttl st'))"

definition DeleteMiddleware :: "ng \<Rightarrow> MiddlewareKey \<Rightarrow> etcd \<Rightarrow> error option \<times> etcd" where
  "DeleteMiddleware n mk st =
     (case mk of MiddlewareKey id' (FrontendKey fid) \<Rightarrow>
      if fid = [] \<or> id' = []
      then (Some (InvalidFormatError ''frontend id and middleware id can not be empty''), st)
      else deleteKey (path n [''frontends'', fid, ''middlewares'', id']) st)"

definition GetServer :: "ng \<Rightarrow> ServerKey \<Rightarrow> etcd \<Rightarrow> (error + Server) \<times> etcd" where
  "GetServer n sk st =
     (case sk of ServerKey id' (BackendKey bid) \<Rightarrow>
      (case getVal (path n [''backends'', bid, ''servers'', id']) st of
         (Inl err, st') \<Rightarrow> (Inl err, st')
       | (Inr bytes, st') \<Rightarrow> (ServerFromJSON n bytes id', st')))"



definition UpsertServer ::
  "ng \<Rightarrow> BackendKey \<Rightarrow> Server \<Rightarrow> int \<Rightarrow> etcd \<Rightarrow> error option \<times> etcd" where
  "UpsertServer n bk s ttl st =
     (case bk of BackendKey bid \<Rightarrow>
      if s_Id s = [] \<or> bid = []
      then (Some (InvalidFormatError ''backend id and server id can not be empty''), st)
      else
        (case GetBackend n bk st of
           (Inl err, st') \<Rightarrow> (Some err, st')
         | (Inr b, st') \<Rightarrow>
             setJSONVal (path n [''backends'', bid, ''servers'', s_Id s])
               (Marshal_Server n s) ttl st'))"

definition DeleteServer :: "ng \<Rightarrow> ServerKey \<Rightarrow> etcd \<Rightarrow> error option \<times> etcd" where
  "DeleteServer n sk st =
     (case sk of ServerKey id' (BackendKey bid) \<Rightarrow>
      if id' = [] \<or> bid = []
      then (Some (InvalidFormatError ''backend id and server id can not be empty''), st)
      else deleteKey (path n [''backends'', bid, ''servers'', id']) st)"

subsection \<open>The patterns of the change classifier\<close>

text \<open>
  The classifier matches keys against six regular expressions with
  \<open>FindStringSubmatch\<close>, which returns the leftmost match and its groups, or nil.
  Each expression is a literal, a group \<open>([^/]+)\<close> and a tail. The group is greedy,
  and what follows it starts with a slash or is the end of the text, so at a given
  start the group can only be the whole run of characters up to the next slash.
\<close>

text \<open>The rest of \<open>s\<close> after the literal \<open>lit\<close>, when \<open>s\<close> starts with it.\<close>

fun cutPrefix :: "string \<Rightarrow> string \<Rightarrow> string option" where
  "cutPrefix [] s = Some s"
| "cutPrefix (l # ls) [] = None"
| "cutPrefix (l # ls) (c # cs) = (if l = c then cutPrefix ls cs else None)"

definition run :: "string \<Rightarrow> string" where
  "run s = takeWhile (\<lambda>c. c \<noteq> CHR ''/'') s"

definition afterRun :: "string \<Rightarrow> string" where
  "afterRun s = dropWhile (\<lambda>c. c \<noteq> CHR ''/'') s"

text \<open>A match of \<open>lit([^/]+)(?:opt)?$\<close> that starts at the first character of \<open>s\<close>.\<close>

definition entityAt :: "string \<Rightarrow> string \<Rightarrow> string \<Rightarrow> string list option" where
  "entityAt lit opt s =
     (case cutPrefix lit s of
        None \<Rightarrow> None
      | Some r \<Rightarrow>
          if run r \<noteq> [] \<and> (afterRun r = opt \<or> afterRun r = [])
          then Some [s, run r] else None)"

text \<open>A match of \<open>lit1([^/]+)lit2([^/]+)$\<close> that starts at the first character of \<open>s\<close>.\<close>

definition childAt :: "string \<Rightarrow> string \<Rightarrow> string \<Rightarrow> string list option" where
  "childAt lit1 lit2 s =
     (case cutPrefix lit1 s of
        None \<Rightarrow> None
      | Some r \<Rightarrow>
          if run r = [] then None
          else
            (case cutPrefix lit2 (afterRun r) of
               None \<Rightarrow> None
             | Some r2 \<Rightarrow>
                 if run r2 \<noteq> [] \<and> afterRun r2 = []
                 then Some [s, run r, run r2] else None))"

text \<open>A match of \<open>lit([^/]+)\<close>, with no anchor, that starts at the first character.\<close>

definition openAt :: "string \<Rightarrow> string \<Rightarrow> string list option" where
  "openAt lit s =
     (case cutPrefix lit s of
        None \<Rightarrow> None
      | Some r \<Rightarrow> if run r \<noteq> [] then Some [lit @ run r, run r] else None)"

text \<open>The leftmost match: the first start, from the left, at which there is a match.\<close>

fun leftmost :: "(string \<Rightarrow> string list option) \<Rightarrow> string \<Rightarrow> string list" where
  "leftmost m [] = (case m [] of Some out \<Rightarrow> out | None \<Rightarrow> [])"
| "leftmost m (c # cs) =
     (case m (c # cs) of Some out \<Rightarrow> out | None \<Rightarrow> leftmost m cs)"

definition hostRegexp :: "string \<Rightarrow> string list" where
  "hostRegexp key = leftmost (entityAt ''/hosts/'' ''/host'') key"

definition listenerRegexp :: "string \<Rightarrow> string list" where
  "listenerRegexp key = leftmost (openAt ''/listeners/'') key"

definition frontendRegexp :: "string \<Rightarrow> string list" where
  "frontendRegexp key = leftmost (entityAt ''/frontends/'' ''/frontend'') key"

definition middlewareRegexp :: "string \<Rightarrow> string list" where
  "middlewareRegexp key = leftmost (childAt ''/frontends/'' ''/middlewares/'') key"

definition backendRegexp :: "string \<Rightarrow> string list" where
  "backendRegexp key = leftmost (entityAt ''/backends/'' ''/backend'') key"

definition serverRegexp :: "string \<Rightarrow> string list" where
  "serverRegexp key = leftmost (childAt ''/backends/'' ''/servers/'') key"

subsection \<open>The change classifier\<close>

text \<open>
  A matcher returns \<open>(nil, nil)\<close> (here \<open>Inr None\<close>), a change, or an error.
\<close>

type_synonym MatcherFn = "Event \<Rightarrow> etcd \<Rightarrow> (error + change option) \<times> etcd"

definition parseHostChange :: "ng \<Rightarrow> MatcherFn" where
  "parseHostChange n e st =
     (let out = hostRegexp (Key (Kv e)) in
      if length out \<noteq> 2 then (Inr None, st)
      else
        (case Type e of
           PUT \<Rightarrow>
             (case GetHost n (HostKey (out ! 1)) st of
                (Inl err, st') \<Rightarrow> (Inl err, st')
              | (Inr host, st') \<Rightarrow> (Inr (Some (HostUpserted host)), st'))
         | DELETE \<Rightarrow> (Inr (Some (HostDeleted (HostKey (out ! 1)))), st)
         | OtherType t \<Rightarrow> (Inl (Errorf ''unsupported action for host''), st)))"

definition parseListenerChange :: "ng \<Rightarrow> MatcherFn" where
  "parseListenerChange n e st =
     (let out = listenerRegexp (Key (Kv e)) in
      if length out \<noteq> 2 then (Inr None, st)
      else
        (case Type e of
           PUT \<Rightarrow>
             (case GetListener n (ListenerKey (out ! 1)) st of
                (Inl err, st') \<Rightarrow> (Inl err, st')
              | (Inr l, st') \<Rightarrow> (Inr (Some (ListenerUpserted l)), st'))
         | DELETE \<Rightarrow> (Inr (Some (ListenerDeleted (ListenerKey (out ! 1)))), st)
         | OtherType t \<Rightarrow> (Inl (Errorf ''unsupported action on the listener''), st)))"

definition parseFrontendChange :: "ng \<Rightarrow> MatcherFn" where
  "parseFrontendChange n e st =
     (let out = frontendRegexp (Key (Kv e)) in
      if length out \<noteq> 2 then (Inr None, st)
      else
        (case Type e of
           PUT \<Rightarrow>
             (case GetFrontend n (FrontendKey (out ! 1)) st of
                (Inl err, st') \<Rightarrow> (Inl err, st')
              | (Inr f, st') \<Rightarrow> (Inr (Some (FrontendUpserted f)), st'))
         | DELETE \<Rightarrow> (Inr (Some (FrontendDeleted (FrontendKey (out ! 1)))), st)
         | OtherType t \<Rightarrow> (Inl (Errorf ''unsupported action on the frontend''), st)))"

definition parseFrontendMiddlewareChange :: "ng \<Rightarrow> MatcherFn" where
  "parseFrontendMiddlewareChange n e st =
     (let out = middlewareRegexp (Key (Kv e)) in
      if length out \<noteq> 3 then (Inr None, st)
      else
        (let fk = FrontendKey (out ! 1); mk = MiddlewareKey (out ! 2) fk in
         case Type e of
           PUT \<Rightarrow>
             (case GetMiddleware n mk st of
                (Inl err, st') \<Rightarrow> (Inl err, st')
              | (Inr m, st') \<Rightarrow> (Inr (Some (MiddlewareUpserted fk m)), st'))
         | DELETE \<Rightarrow> (Inr (Some (MiddlewareDeleted mk)), st)
         | OtherType t \<Rightarrow> (Inl (Errorf ''unsupported action on the rate''), st)))"

definition parseBackendChange :: "ng \<Rightarrow> MatcherFn" where
  "parseBackendChange n e st =
     (let out = backendRegexp (Key (Kv e)) in
      if length out \<noteq> 2 then (Inr None, st)
      else
        (case Type e of
           PUT \<Rightarrow>
             (case GetBackend n (BackendKey (out ! 1)) st of
                (Inl err, st') \<Rightarrow> (Inl err, st')
              | (Inr b, st') \<Rightarrow> (Inr (Some (BackendUpserted b)), st'))
         | DELETE \<Rightarrow> (Inr (Some (BackendDeleted (BackendKey (out ! 1)))), st)
         | OtherType t \<Rightarrow> (Inl (Errorf ''unsupported node action''), st)))"

definition parseBackendServerChange :: "ng \<Rightarrow> MatcherFn" where
  "parseBackendServerChange n e st =
     (let out = serverRegexp (Key (Kv e)) in
      if length out \<noteq> 3 then (Inr None, st)
      else
        (let sk = ServerKey (out ! 2) (BackendKey (out ! 1)) in
         case Type e of
           PUT \<Rightarrow>
             (case GetServer n sk st of
                (Inl err, st') \<Rightarrow> (Inl err, st')
              | (Inr srv, st') \<Rightarrow> (Inr (Some (ServerUpserted (BackendKey (out ! 1)) srv)), st'))
         | DELETE \<Rightarrow> (Inr (Some (ServerDeleted sk)), st)
         | OtherType t \<Rightarrow> (Inl (Errorf ''unsupported action on the server''), st)))"

text \<open>The loop of \<open>parseChange\<close>: the first matcher with a change or an error decides.\<close>

fun tryMatchers :: "MatcherFn list \<Rightarrow> MatcherFn" where
  "tryMatchers [] e st = (Inr None, st)"
| "tryMatchers (matcher # rest) e st =
     (case matcher e st of
        (Inr None, st') \<Rightarrow> tryMatchers rest e st'
      | (Inr (Some a), st') \<Rightarrow> (Inr (Some a), st')
      | (Inl err, st') \<Rightarrow> (Inl err, st'))"

definition matchers :: "ng \<Rightarrow> MatcherFn list" where
  "matchers n =
     [parseBackendServerChange n, parseBackendChange n, parseFrontendMiddlewareChange n,
      parseFrontendChange n, parseHostChange n, parseListenerChange n]"

definition parseChange :: "ng \<Rightarrow> MatcherFn" where
  "parseChange n e st = tryMatchers (matchers n) e st"

subsection \<open>The watch loop\<close>

text \<open>
  The two channels of \<open>Subscribe\<close>: the changes sent so far on \<open>changes\<close>, and for
  each coming \<open>select\<close> whether the receive from \<open>cancelC\<close> is the case that runs
  (\<open>True\<close>) or the send (\<open>False\<close>, and when the list is used up).
\<close>

record channels =
  changes :: "change list"
  cancelC :: "bool list"

text \<open>
  The inner loop over the events of one response. The first component of the result
  says whether the function returned from inside the loop, on \<open>cancelC\<close>.
\<close>

fun events_loop :: "ng \<Rightarrow> Event list \<Rightarrow> channels \<Rightarrow> etcd \<Rightarrow> bool \<times> channels \<times> etcd" where
  "events_loop n [] ch st = (False, ch, st)"
| "events_loop n (event # rest) ch st =
     (case parseChange n event (log (Infof_event event) st) of
        (Inl err, st') \<Rightarrow> events_loop n rest ch (log (Warningf ''Ignore'' err) st')
      | (Inr None, st') \<Rightarrow> events_loop n rest ch st'
      | (Inr (Some change), st') \<Rightarrow>
          (case cancelC ch of
             True # cs \<Rightarrow> (True, ch\<lparr>cancelC := cs\<rparr>, log (Infof_change change) st')
           | False # cs \<Rightarrow>
               events_loop n rest (ch\<lparr>changes := changes ch @ [change], cancelC := cs\<rparr>)
                 (log (Infof_change change) st')
           | [] \<Rightarrow>
               events_loop n rest (ch\<lparr>changes := changes ch @ [change]\<rparr>)
                 (log (Infof_change change) st')))"

text \<open>
  The outer loop over the responses that the watch channel delivers before it is
  closed; the result is the error that \<open>Subscribe\<close> returns, \<open>None\<close> for nil.
\<close>

fun watch_loop ::
  "ng \<Rightarrow> WatchResponse list \<Rightarrow> channels \<Rightarrow> etcd \<Rightarrow> error option \<times> channels \<times> etcd" where
  "watch_loop n [] ch st = (None, ch, st)"
| "watch_loop n (response # rest) ch st =
     (if Canceled response
      then (None, ch, log (Infof ''Stop watching: graceful shutdown'') st)
      else
        (case Err response of
           Some err \<Rightarrow> (Some err, ch, log (Errorf_log ''Stop watching: error'' err) st)
         | None \<Rightarrow>
             (case events_loop n (Events response) ch st of
                (True, ch', st') \<Rightarrow> (None, ch', st')
              | (False, ch', st') \<Rightarrow> watch_loop n rest ch' st')))"

text \<open>The conversion \<open>int64(afterIdx)\<close> of an unsigned 64-bit index.\<close>

definition int64 :: "int \<Rightarrow> int" where
  "int64 x = (if x mod 2 ^ 64 < 2 ^ 63 then x mod 2 ^ 64 else x mod 2 ^ 64 - 2 ^ 64)"

definition Subscribe ::
  "ng \<Rightarrow> WatchResponse list \<Rightarrow> channels \<Rightarrow> int \<Rightarrow> etcd \<Rightarrow> error option \<times> channels \<times> etcd" where
  "Subscribe n watchChan ch afterIdx st =
     watch_loop n watchChan ch (st\<lparr>calls := calls st @ [ReqWatch (etcdKey n) (int64 afterIdx)]\<rparr>)"

subsection \<open>An engine for the examples\<close>

text \<open>
  An engine with the root key \<open>/vulcand\<close> and no secret box. Its decoders reject the
  payload \<open>garbage\<close> and build every other entity from the id and the payload (the
  payload of a frontend is the id of its backend); its encoders store the id or the
  body.
\<close>

definition decodeWith :: "(string \<Rightarrow> string \<Rightarrow> 'a) \<Rightarrow> string \<Rightarrow> string \<Rightarrow> error + 'a" where
  "decodeWith mk bytes id' =
     (if bytes = ''garbage'' then Inl (DecodeError ''invalid character'') else Inr (mk bytes id'))"

definition exampleEngine :: ng where
  "exampleEngine =
     \<lparr>etcdKey = ''/vulcand'',
      Box = None,
      FrontendFromJSON =
        decodeWith (\<lambda>bytes id'. \<lparr>f_Id = id', f_BackendId = bytes, f_Route = []\<rparr>),
      MiddlewareFromJSON =
        decodeWith (\<lambda>bytes id'. \<lparr>m_Id = id', m_Type = [], m_Body = bytes\<rparr>),
      BackendFromJSON = decodeWith (\<lambda>bytes id'. \<lparr>b_Id = id', b_Body = bytes\<rparr>),
      ServerFromJSON = decodeWith (\<lambda>bytes id'. \<lparr>s_Id = id', s_URL = bytes\<rparr>),
      ListenerFromJSON = decodeWith (\<lambda>bytes id'. \<lparr>l_Id = id', l_Body = bytes\<rparr>),
      NewHost = (\<lambda>name settings. Inr \<lparr>h_Name = name, h_Settings = settings\<rparr>),
      Unmarshal_host =
        (\<lambda>bytes. if bytes = ''garbage'' then Inl (DecodeError ''invalid character'')
                  else Inr \<lparr>Name = bytes,
                            Settings = \<lparr>Default = False, KeyPair = [], OCSP = []\<rparr>\<rparr>),
      Unmarshal_KeyPair = (\<lambda>bytes. Inr None),
      SealedValueFromJSON = Inr,
      SealedValueToJSON = Inr,
      Marshal_host = (\<lambda>h. Inr (Name h)),
      Marshal_KeyPair = (\<lambda>k. Inr (Key_pem k)),
      Marshal_Listener = (\<lambda>l. Inr (l_Body l)),
      Marshal_Frontend = (\<lambda>f. Inr (f_BackendId f)),
      Marshal_Middleware = (\<lambda>m. Inr (m_Body m)),
      Marshal_Backend = (\<lambda>b. Inr (b_Body b)),
      Marshal_Server = (\<lambda>s. Inr (s_URL s))\<rparr>"

text \<open>A store with the given records, at revision 1, where every request is served.\<close>

definition storeOf :: "KeyValue list \<Rightarrow> etcd" where
  "storeOf records =
     \<lparr>kvs = records, revision = 1, leases = 0, faults = [], calls = [], logged = []\<rparr>"

text \<open>Events on a key, and the channels of a consumer that never cancels.\<close>

definition putEvent :: "string \<Rightarrow> Event" where
  "putEvent key = \<lparr>Type = PUT, Kv = \<lparr>Key = key, Value = []\<rparr>, PrevKv = None\<rparr>"

definition deleteEvent :: "string \<Rightarrow> Event" where
  "deleteEvent key = \<lparr>Type = DELETE, Kv = \<lparr>Key = key, Value = []\<rparr>, PrevKv = None\<rparr>"

definition noChanges :: channels where
  "noChanges = \<lparr>changes = [], cancelC = []\<rparr>"



text \<open>
  A store where frontend \<open>f1\<close> references backend \<open>b1\<close>, and a listing with a
  frontend and two middlewares, both laid out as \<open>UpsertFrontend\<close>, \<open>UpsertBackend\<close>,
  \<open>UpsertServer\<close> and \<open>UpsertMiddleware\<close> write them.
\<close>

definition referencedStore :: etcd where
  "referencedStore = storeOf
     [\<lparr>Key = ''/vulcand/backends/b1/backend'', Value = ''http''\<rparr>,
      \<lparr>Key = ''/vulcand/backends/b1/servers/s1'', Value = ''http://a''\<rparr>,
      \<lparr>Key = ''/vulcand/frontends/f1/frontend'', Value = ''b1''\<rparr>]"

definition frontendStore :: etcd where
  "frontendStore = storeOf
     [\<lparr>Key = ''/vulcand/frontends'', Value = []\<rparr>,
      \<lparr>Key = ''/vulcand/frontends/f1/frontend'', Value = ''b1''\<rparr>,
      \<lparr>Key = ''/vulcand/frontends/f1/middlewares/m1'', Value = ''ratelimit''\<rparr>,
      \<lparr>Key = ''/vulcand/frontends/f1/middlewares/m2'', Value = ''rewrite''\<rparr>]"

section \<open>Key paths\<close>

lemma LastIndex_none: "CHR ''/'' \<notin> set s \<Longrightarrow> strings_LastIndex s ''/'' = -1"
  by (induction s) auto

lemma LastIndex_last_slash:
  "CHR ''/'' \<notin> set s \<Longrightarrow> strings_LastIndex (b @ ''/'' @ s) ''/'' = int (length b)"
  by (induction b) (auto simp: LastIndex_none Let_def)

lemma Join_snoc:
  "xs \<noteq> [] \<Longrightarrow> strings_Join (xs @ [s]) sep = strings_Join xs sep @ sep @ s"
  by (induction xs sep rule: strings_Join.induct) auto

lemma path_snoc: "path n (ks @ [s]) = path n ks @ ''/'' @ s"
  using Join_snoc [of "etcdKey n # ks" s "''/''"] by (simp add: path_def)

lemma suffix_no_slash: "CHR ''/'' \<notin> set p \<Longrightarrow> suffix p = p"
  by (simp add: suffix_def LastIndex_none)

lemma prefix_no_slash: "CHR ''/'' \<notin> set p \<Longrightarrow> prefix p = p"
  by (simp add: prefix_def LastIndex_none)

lemma suffix_join: "CHR ''/'' \<notin> set s \<Longrightarrow> suffix (b @ ''/'' @ s) = s"
  using LastIndex_last_slash [of s b] by (simp add: suffix_def Let_def del: append.simps)

lemma prefix_join: "CHR ''/'' \<notin> set s \<Longrightarrow> prefix (b @ ''/'' @ s) = b"
  using LastIndex_last_slash [of s b] by (simp add: prefix_def Let_def del: append.simps)

text \<open>
  Claim C8. A path \<open>p\<close> without a slash is its own last segment and its own parent:
  \<open>suffix p = p\<close> and \<open>prefix p = p\<close>. For a segment \<open>s\<close> without a slash, joined by
  \<open>path\<close> to any base (the root key followed by the segments \<open>ks\<close>), \<open>suffix\<close> gives
  back \<open>s\<close> and \<open>prefix\<close> gives back the base, character for character.
\<close>

theorem key_path_inverse:
  "(CHR ''/'' \<notin> set p \<longrightarrow> suffix p = p \<and> prefix p = p) \<and>
   (CHR ''/'' \<notin> set s \<longrightarrow>
      suffix (path n (ks @ [s])) = s \<and> prefix (path n (ks @ [s])) = path n ks)"
  by (simp add: suffix_no_slash prefix_no_slash path_snoc suffix_join prefix_join
        del: append.simps)

theorem key_path_inverse_witness:
  "CHR ''/'' \<notin> set ''hosts'' \<and> CHR ''/'' \<notin> set ''h1'' \<and>
   suffix ''hosts'' = ''hosts'' \<and> prefix ''hosts'' = ''hosts'' \<and>
   suffix (path exampleEngine [''hosts'', ''h1'']) = ''h1'' \<and>
   prefix (path exampleEngine [''hosts'', ''h1'']) = path exampleEngine [''hosts'']"
  using key_path_inverse [of "''hosts''" "''h1''" exampleEngine "[''hosts'']"] by simp

section \<open>Empty identifiers\<close>

text \<open>
  Claim C9. Every upsert and every delete called with an empty identifier (host name,
  listener id, frontend id, backend id, middleware id or server id) returns an
  \<open>InvalidFormatError\<close> and leaves the world as it was: no record changes and no
  request, read or write, is sent.
\<close>

theorem empty_identifier_rejected:
  "(h_Name h = [] \<longrightarrow>
      UpsertHost n h st = (Some (InvalidFormatError ''hostname can not be empty''), st)) \<and>
   DeleteHost n (HostKey []) st = (Some (InvalidFormatError ''hostname can not be empty''), st) \<and>
   (l_Id l = [] \<longrightarrow>
      UpsertListener n l st = (Some (InvalidFormatError ''listener id can not be empty''), st)) \<and>
   DeleteListener n (ListenerKey []) st =
      (Some (InvalidFormatError ''listener id can not be empty''), st) \<and>
   (f_Id f = [] \<longrightarrow>
      UpsertFrontend n f ttl st = (Some (InvalidFormatError ''frontend id can not be empty''), st)) \<and>
   DeleteFrontend n (FrontendKey []) st =
      (Some (InvalidFormatError ''frontend id can not be empty''), st) \<and>
   (b_Id b = [] \<longrightarrow>
      UpsertBackend n b st = (Some (InvalidFormatError ''backend id can not be empty''), st)) \<and>
   DeleteBackend n (BackendKey []) st =
      (Some (InvalidFormatError ''backend id can not be empty''), st) \<and>
   (fid = [] \<or> m_Id m = [] \<longrightarrow>
      UpsertMiddleware n (FrontendKey fid) m ttl st =
        (Some (InvalidFormatError ''frontend id and middleware id can not be empty''), st)) \<and>
   (fid = [] \<or> mid = [] \<longrightarrow>
      DeleteMiddleware n (MiddlewareKey mid (FrontendKey fid)) st =
        (Some (InvalidFormatError ''frontend id and middleware id can not be empty''), st)) \<and>
   (s_Id s = [] \<or> bid = [] \<longrightarrow>
      UpsertServer n (BackendKey bid) s ttl st =
        (Some (InvalidFormatError ''backend id and server id can not be empty''), st)) \<and>
   (sid = [] \<or> bid = [] \<longrightarrow>
      DeleteServer n (ServerKey sid (BackendKey bid)) st =
        (Some (InvalidFormatError ''backend id and server id can not be empty''), st))"
  by (simp add: UpsertHost_def DeleteHost_def UpsertListener_def DeleteListener_def
        UpsertFrontend_def DeleteFrontend_def UpsertBackend_def DeleteBackend_def
        UpsertMiddleware_def DeleteMiddleware_def UpsertServer_def DeleteServer_def)

theorem empty_identifier_rejected_witness:
  "UpsertHost exampleEngine
     \<lparr>h_Name = [], h_Settings = \<lparr>hs_Default = False, hs_KeyPair = None, hs_OCSP = []\<rparr>\<rparr>
     (storeOf [\<lparr>Key = ''/vulcand/hosts/h1/host'', Value = ''h1''\<rparr>]) =
     (Some (InvalidFormatError ''hostname can not be empty''),
      storeOf [\<lparr>Key = ''/vulcand/hosts/h1/host'', Value = ''h1''\<rparr>]) \<and>
   UpsertListener exampleEngine \<lparr>l_Id = [], l_Body = ''tcp''\<rparr>
     (storeOf [\<lparr>Key = ''/vulcand/hosts/h1/host'', Value = ''h1''\<rparr>]) =
     (Some (InvalidFormatError ''listener id can not be empty''),
      storeOf [\<lparr>Key = ''/vulcand/hosts/h1/host'', Value = ''h1''\<rparr>]) \<and>
   UpsertFrontend exampleEngine \<lparr>f_Id = [], f_BackendId = ''b1'', f_Route = []\<rparr> 0
     (storeOf [\<lparr>Key = ''/vulcand/hosts/h1/host'', Value = ''h1''\<rparr>]) =
     (Some (InvalidFormatError ''frontend id can not be empty''),
      storeOf [\<lparr>Key = ''/vulcand/hosts/h1/host'', Value = ''h1''\<rparr>]) \<and>
   UpsertBackend exampleEngine \<lparr>b_Id = [], b_Body = ''http''\<rparr>
     (storeOf [\<lparr>Key = ''/vulcand/hosts/h1/host'', Value = ''h1''\<rparr>]) =
     (Some (InvalidFormatError ''backend id can not be empty''),
      storeOf [\<lparr>Key = ''/vulcand/hosts/h1/host'', Value = ''h1''\<rparr>]) \<and>
   UpsertMiddleware exampleEngine (FrontendKey ''f1'') \<lparr>m_Id = [], m_Type = [], m_Body = []\<rparr> 0
     (storeOf [\<lparr>Key = ''/vulcand/hosts/h1/host'', Value = ''h1''\<rparr>]) =
     (Some (InvalidFormatError ''frontend id and middleware id can not be empty''),
      storeOf [\<lparr>Key = ''/vulcand/hosts/h1/host'', Value = ''h1''\<rparr>]) \<and>
   DeleteMiddleware exampleEngine (MiddlewareKey [] (FrontendKey ''f1''))
     (storeOf [\<lparr>Key = ''/vulcand/hosts/h1/host'', Value = ''h1''\<rparr>]) =
     (Some (InvalidFormatError ''frontend id and middleware id can not be empty''),
      storeOf [\<lparr>Key = ''/vulcand/hosts/h1/host'', Value = ''h1''\<rparr>]) \<and>
   UpsertServer exampleEngine (BackendKey []) \<lparr>s_Id = ''s1'', s_URL = []\<rparr> 0
     (storeOf [\<lparr>Key = ''/vulcand/hosts/h1/host'', Value = ''h1''\<rparr>]) =
     (Some (InvalidFormatError ''backend id and server id can not be empty''),
      storeOf [\<lparr>Key = ''/vulcand/hosts/h1/host'', Value = ''h1''\<rparr>]) \<and>
   DeleteServer exampleEngine (ServerKey [] (BackendKey []))
     (storeOf [\<lparr>Key = ''/vulcand/hosts/h1/host'', Value = ''h1''\<rparr>]) =
     (Some (InvalidFormatError ''backend id and server id can not be empty''),
      storeOf [\<lparr>Key = ''/vulcand/hosts/h1/host'', Value = ''h1''\<rparr>])"
  using empty_identifier_rejected
    [where h = "\<lparr>h_Name = [], h_Settings = \<lparr>hs_Default = False, hs_KeyPair = None, hs_OCSP = []\<rparr>\<rparr>"
       and n = exampleEngine
       and st = "storeOf [\<lparr>Key = ''/vulcand/hosts/h1/host'', Value = ''h1''\<rparr>]"
       and l = "\<lparr>l_Id = [], l_Body = ''tcp''\<rparr>"
       and f = "\<lparr>f_Id = [], f_BackendId = ''b1'', f_Route = []\<rparr>" and ttl = 0
       and b = "\<lparr>b_Id = [], b_Body = ''http''\<rparr>"
       and fid = "''f1''" and m = "\<lparr>m_Id = [], m_Type = [], m_Body = []\<rparr>" and mid = "[]"
       and s = "\<lparr>s_Id = ''s1'', s_URL = []\<rparr>" and bid = "[]" and sid = "[]"]
  by simp

section \<open>The change classifier\<close>

lemma tryMatchers_skip:
  "m e st = (Inr None, st) \<Longrightarrow> tryMatchers (m # ms) e st = tryMatchers ms e st"
  by simp

lemma tryMatchers_take:
  "fst (m e st) \<noteq> Inr None \<Longrightarrow> tryMatchers (m # ms) e st = m e st"
  by (cases "m e st") (auto split: sum.splits option.splits)

lemma server_skip:
  "length (serverRegexp (Key (Kv e))) \<noteq> 3 \<Longrightarrow> parseBackendServerChange n e st = (Inr None, st)"
  by (simp add: parseBackendServerChange_def)

lemma backend_skip:
  "length (backendRegexp (Key (Kv e))) \<noteq> 2 \<Longrightarrow> parseBackendChange n e st = (Inr None, st)"
  by (simp add: parseBackendChange_def)

lemma middleware_skip:
  "length (middlewareRegexp (Key (Kv e))) \<noteq> 3 \<Longrightarrow>
     parseFrontendMiddlewareChange n e st = (Inr None, st)"
  by (simp add: parseFrontendMiddlewareChange_def)

lemma frontend_skip:
  "length (frontendRegexp (Key (Kv e))) \<noteq> 2 \<Longrightarrow> parseFrontendChange n e st = (Inr None, st)"
  by (simp add: parseFrontendChange_def)

lemma host_skip:
  "length (hostRegexp (Key (Kv e))) \<noteq> 2 \<Longrightarrow> parseHostChange n e st = (Inr None, st)"
  by (simp add: parseHostChange_def)

lemma listener_skip:
  "length (listenerRegexp (Key (Kv e))) \<noteq> 2 \<Longrightarrow> parseListenerChange n e st = (Inr None, st)"
  by (simp add: parseListenerChange_def)

lemma server_take:
  "length (serverRegexp (Key (Kv e))) = 3 \<Longrightarrow> fst (parseBackendServerChange n e st) \<noteq> Inr None"
  by (simp add: parseBackendServerChange_def Let_def split: EventType.splits prod.splits sum.splits)

lemma backend_take:
  "length (backendRegexp (Key (Kv e))) = 2 \<Longrightarrow> fst (parseBackendChange n e st) \<noteq> Inr None"
  by (simp add: parseBackendChange_def Let_def split: EventType.splits prod.splits sum.splits)

lemma middleware_take:
  "length (middlewareRegexp (Key (Kv e))) = 3 \<Longrightarrow>
     fst (parseFrontendMiddlewareChange n e st) \<noteq> Inr None"
  by (simp add: parseFrontendMiddlewareChange_def Let_def
        split: EventType.splits prod.splits sum.splits)

lemma frontend_take:
  "length (frontendRegexp (Key (Kv e))) = 2 \<Longrightarrow> fst (parseFrontendChange n e st) \<noteq> Inr None"
  by (simp add: parseFrontendChange_def Let_def split: EventType.splits prod.splits sum.splits)

lemma host_take:
  "length (hostRegexp (Key (Kv e))) = 2 \<Longrightarrow> fst (parseHostChange n e st) \<noteq> Inr None"
  by (simp add: parseHostChange_def Let_def split: EventType.splits prod.splits sum.splits)

lemma listener_take:
  "length (listenerRegexp (Key (Kv e))) = 2 \<Longrightarrow> fst (parseListenerChange n e st) \<noteq> Inr None"
  by (simp add: parseListenerChange_def Let_def split: EventType.splits prod.splits sum.splits)

lemmas skips = server_skip backend_skip middleware_skip frontend_skip host_skip listener_skip
lemmas takes = server_take backend_take middleware_take frontend_take host_take listener_take

lemma parseChange_first_match:
  "parseChange n e st =
     (if length (serverRegexp (Key (Kv e))) = 3 then parseBackendServerChange n e st
      else if length (backendRegexp (Key (Kv e))) = 2 then parseBackendChange n e st
      else if length (middlewareRegexp (Key (Kv e))) = 3 then parseFrontendMiddlewareChange n e st
      else if length (frontendRegexp (Key (Kv e))) = 2 then parseFrontendChange n e st
      else if length (hostRegexp (Key (Kv e))) = 2 then parseHostChange n e st
      else if length (listenerRegexp (Key (Kv e))) = 2 then parseListenerChange n e st
      else (Inr None, st))"
  by (simp add: parseChange_def matchers_def tryMatchers_skip tryMatchers_take skips takes
        del: tryMatchers.simps(2))


text \<open>
  Claim C5. \<open>parseChange\<close> tries the matchers in the fixed order server, backend,
  frontend middleware, frontend, host, listener, and the first whose pattern matches
  the key decides the result; when no pattern matches, the result is nil with no
  error. For a \<open>DELETE\<close> on a key that matches a pattern the result is the deleted
  event of that entity, which carries only the identifying keys taken from the key,
  and the world is unchanged: no request is sent, so no point read is performed.
\<close>

theorem parseChange_classifies:
  "parseChange n e st =
     (if length (serverRegexp (Key (Kv e))) = 3 then parseBackendServerChange n e st
      else if length (backendRegexp (Key (Kv e))) = 2 then parseBackendChange n e st
      else if length (middlewareRegexp (Key (Kv e))) = 3 then parseFrontendMiddlewareChange n e st
      else if length (frontendRegexp (Key (Kv e))) = 2 then parseFrontendChange n e st
      else if length (hostRegexp (Key (Kv e))) = 2 then parseHostChange n e st
      else if length (listenerRegexp (Key (Kv e))) = 2 then parseListenerChange n e st
      else (Inr None, st)) \<and>
   (Type e = DELETE \<longrightarrow>
      parseChange n e st =
        (Inr (if length (serverRegexp (Key (Kv e))) = 3
              then Some (ServerDeleted (ServerKey (serverRegexp (Key (Kv e)) ! 2)
                           (BackendKey (serverRegexp (Key (Kv e)) ! 1))))
              else if length (backendRegexp (Key (Kv e))) = 2
              then Some (BackendDeleted (BackendKey (backendRegexp (Key (Kv e)) ! 1)))
              else if length (middlewareRegexp (Key (Kv e))) = 3
              then Some (MiddlewareDeleted (MiddlewareKey (middlewareRegexp (Key (Kv e)) ! 2)
                           (FrontendKey (middlewareRegexp (Key (Kv e)) ! 1))))
              else if length (frontendRegexp (Key (Kv e))) = 2
              then Some (FrontendDeleted (FrontendKey (frontendRegexp (Key (Kv e)) ! 1)))
              else if length (hostRegexp (Key (Kv e))) = 2
              then Some (HostDeleted (HostKey (hostRegexp (Key (Kv e)) ! 1)))
              else if length (listenerRegexp (Key (Kv e))) = 2
              then Some (ListenerDeleted (ListenerKey (listenerRegexp (Key (Kv e)) ! 1)))
              else None), st))"
proof -
  have "Type e = DELETE \<Longrightarrow> length (serverRegexp (Key (Kv e))) = 3 \<Longrightarrow>
          parseBackendServerChange n e st =
            (Inr (Some (ServerDeleted (ServerKey (serverRegexp (Key (Kv e)) ! 2)
                    (BackendKey (serverRegexp (Key (Kv e)) ! 1))))), st)"
    by (simp add: parseBackendServerChange_def Let_def)
  moreover have "Type e = DELETE \<Longrightarrow> length (backendRegexp (Key (Kv e))) = 2 \<Longrightarrow>
          parseBackendChange n e st =
            (Inr (Some (BackendDeleted (BackendKey (backendRegexp (Key (Kv e)) ! 1)))), st)"
    by (simp add: parseBackendChange_def Let_def)
  moreover have "Type e = DELETE \<Longrightarrow> length (middlewareRegexp (Key (Kv e))) = 3 \<Longrightarrow>
          parseFrontendMiddlewareChange n e st =
            (Inr (Some (MiddlewareDeleted (MiddlewareKey (middlewareRegexp (Key (Kv e)) ! 2)
                    (FrontendKey (middlewareRegexp (Key (Kv e)) ! 1))))), st)"
    by (simp add: parseFrontendMiddlewareChange_def Let_def)
  moreover have "Type e = DELETE \<Longrightarrow> length (frontendRegexp (Key (Kv e))) = 2 \<Longrightarrow>
          parseFrontendChange n e st =
            (Inr (Some (FrontendDeleted (FrontendKey (frontendRegexp (Key (Kv e)) ! 1)))), st)"
    by (simp add: parseFrontendChange_def Let_def)
  moreover have "Type e = DELETE \<Longrightarrow> length (hostRegexp (Key (Kv e))) = 2 \<Longrightarrow>
          parseHostChange n e st =
            (Inr (Some (HostDeleted (HostKey (hostRegexp (Key (Kv e)) ! 1)))), st)"
    by (simp add: parseHostChange_def Let_def)
  moreover have "Type e = DELETE \<Longrightarrow> length (listenerRegexp (Key (Kv e))) = 2 \<Longrightarrow>
          parseListenerChange n e st =
            (Inr (Some (ListenerDeleted (ListenerKey (listenerRegexp (Key (Kv e)) ! 1)))), st)"
    by (simp add: parseListenerChange_def Let_def)
  ultimately show ?thesis
    by (simp add: parseChange_first_match)
qed

lemma example_regexps:
  "serverRegexp ''/vulcand/hosts/h1/host'' = []"
  "backendRegexp ''/vulcand/hosts/h1/host'' = []"
  "middlewareRegexp ''/vulcand/hosts/h1/host'' = []"
  "frontendRegexp ''/vulcand/hosts/h1/host'' = []"
  "hostRegexp ''/vulcand/hosts/h1/host'' = [''/hosts/h1/host'', ''h1'']"
  by code_simp+

theorem parseChange_classifies_witness:
  "Type \<lparr>Type = DELETE, Kv = \<lparr>Key = ''/vulcand/hosts/h1/host'', Value = []\<rparr>, PrevKv = None\<rparr>
     = DELETE \<and>
   parseChange exampleEngine
     \<lparr>Type = DELETE, Kv = \<lparr>Key = ''/vulcand/hosts/h1/host'', Value = []\<rparr>, PrevKv = None\<rparr>
     (storeOf []) =
     (Inr (Some (HostDeleted (HostKey ''h1''))), storeOf [])"
  using parseChange_classifies
    [of exampleEngine
        "\<lparr>Type = DELETE, Kv = \<lparr>Key = ''/vulcand/hosts/h1/host'', Value = []\<rparr>, PrevKv = None\<rparr>"
        "storeOf []"]
  by (simp add: example_regexps parseHostChange_def)

section \<open>The watch loop\<close>

lemma events_loop_append:
  "events_loop n (pre @ post) ch st =
     (case events_loop n pre ch st of
        (True, ch', st') \<Rightarrow> (True, ch', st')
      | (False, ch', st') \<Rightarrow> events_loop n post ch' st')"
proof (induction pre arbitrary: ch st)
  case Nil
  show ?case by simp
next
  case (Cons event pre)
  show ?case
    by (simp add: Cons.IH split: prod.splits sum.splits option.splits list.splits bool.splits)
qed

text \<open>
  Claim C7. When the classification of a mutation returns an error, the loop logs a
  warning with that error, skips that one mutation and goes on with the mutations
  after it: the inner loop continues with the rest of the events, and \<open>Subscribe\<close>
  runs the rest of the response and then the later responses exactly as it would
  from that point, so the error itself never makes \<open>Subscribe\<close> return.
\<close>

theorem classification_error_skipped:
  assumes "parseChange n event (log (Infof_event event) st1) = (Inl err, st2)"
  shows "events_loop n (event # post) ch1 st1 =
           events_loop n post ch1 (log (Warningf ''Ignore'' err) st2) \<and>
         (\<not> Canceled r \<and> Err r = None \<and> Events r = pre @ event # post \<and>
          events_loop n pre ch (st\<lparr>calls := calls st @ [ReqWatch (etcdKey n) (int64 afterIdx)]\<rparr>)
            = (False, ch1, st1) \<longrightarrow>
          Subscribe n (r # later) ch afterIdx st =
            (case events_loop n post ch1 (log (Warningf ''Ignore'' err) st2) of
               (True, ch', st') \<Rightarrow> (None, ch', st')
             | (False, ch', st') \<Rightarrow> watch_loop n later ch' st'))"
  using assms by (simp add: Subscribe_def events_loop_append)

theorem classification_error_skipped_witness:
  "parseChange exampleEngine (putEvent ''/vulcand/hosts/h1/host'')
     (log (Infof_event (putEvent ''/vulcand/hosts/h1/host''))
        ((storeOf [])\<lparr>calls := [ReqWatch ''/vulcand'' 1]\<rparr>)) =
     (Inl (NotFoundError ''Key not found''),
      (storeOf [])\<lparr>calls := [ReqWatch ''/vulcand'' 1, ReqGet ''/vulcand/hosts/h1/host''],
                    logged := [Infof_event (putEvent ''/vulcand/hosts/h1/host'')]\<rparr>) \<and>
   Subscribe exampleEngine
     [\<lparr>Canceled = False, Err = None,
       Events = [putEvent ''/vulcand/hosts/h1/host'', deleteEvent ''/vulcand/hosts/h2/host'']\<rparr>]
     noChanges 1 (storeOf []) =
     (None, \<lparr>changes = [HostDeleted (HostKey ''h2'')], cancelC = []\<rparr>,
      (storeOf [])\<lparr>calls := [ReqWatch ''/vulcand'' 1, ReqGet ''/vulcand/hosts/h1/host''],
                    logged := [Infof_event (putEvent ''/vulcand/hosts/h1/host''),
                               Warningf ''Ignore'' (NotFoundError ''Key not found''),
                               Infof_event (deleteEvent ''/vulcand/hosts/h2/host''),
                               Infof_change (HostDeleted (HostKey ''h2''))]\<rparr>)"
proof -
  let ?e1 = "putEvent ''/vulcand/hosts/h1/host''"
  let ?e2 = "deleteEvent ''/vulcand/hosts/h2/host''"
  let ?st1 = "(storeOf [])\<lparr>calls := [ReqWatch ''/vulcand'' 1]\<rparr>"
  let ?st2 = "(storeOf [])\<lparr>calls := [ReqWatch ''/vulcand'' 1, ReqGet ''/vulcand/hosts/h1/host''],
                    logged := [Infof_event ?e1]\<rparr>"
  have h: "parseChange exampleEngine ?e1 (log (Infof_event ?e1) ?st1) =
             (Inl (NotFoundError ''Key not found''), ?st2)"
    by code_simp
  have rest: "events_loop exampleEngine [?e2] noChanges
                (log (Warningf ''Ignore'' (NotFoundError ''Key not found'')) ?st2) =
              (False, \<lparr>changes = [HostDeleted (HostKey ''h2'')], cancelC = []\<rparr>,
               (storeOf [])\<lparr>calls := [ReqWatch ''/vulcand'' 1, ReqGet ''/vulcand/hosts/h1/host''],
                    logged := [Infof_event ?e1,
                               Warningf ''Ignore'' (NotFoundError ''Key not found''),
                               Infof_event ?e2,
                               Infof_change (HostDeleted (HostKey ''h2''))]\<rparr>)"
    by code_simp
  have st: "(storeOf [])\<lparr>calls := calls (storeOf []) @ [ReqWatch (etcdKey exampleEngine) (int64 1)]\<rparr>
              = ?st1"
    by code_simp
  show ?thesis
    using classification_error_skipped
      [OF h, of "[?e2]" noChanges
         "\<lparr>Canceled = False, Err = None, Events = [?e1, ?e2]\<rparr>" "[]" noChanges "storeOf []" 1 "[]"]
    by (simp add: h rest st del: events_loop.simps(2))
qed




section \<open>The bulk getters\<close>




















section \<open>Upserting a frontend\<close>

lemma send_frame:
  "send r st = (res, st') \<Longrightarrow>
     kvs st' = kvs st \<and> revision st' = revision st \<and> calls st' = calls st @ [r]"
  by (auto simp: send_def split: list.splits)

lemma filter_absent: "\<forall>kv \<in> set xs. Key kv \<noteq> key \<Longrightarrow> filter (\<lambda>kv. Key kv = key) xs = []"
  by (induction xs) auto

lemma getVal_frame:
  "getVal key st = (res, st') \<Longrightarrow>
     kvs st' = kvs st \<and> revision st' = revision st \<and> calls st' = calls st @ [ReqGet key]"
  by (auto simp: getVal_def Get_def split: prod.splits option.splits list.splits dest: send_frame)

lemma getVal_absent:
  "\<forall>kv \<in> set (kvs st). Key kv \<noteq> key \<Longrightarrow> \<exists>err. fst (getVal key st) = Inl err"
  by (auto simp: getVal_def Get_def filter_absent split: prod.splits option.splits list.splits
        dest: send_frame)

lemma GetBackend_frame:
  "GetBackend n (BackendKey b) st = (res, st') \<Longrightarrow>
     kvs st' = kvs st \<and> revision st' = revision st \<and>
     calls st' = calls st @ [ReqGet (path n [''backends'', b, ''backend''])]"
  by (auto simp: GetBackend_def split: prod.splits sum.splits dest: getVal_frame)

lemma GetBackend_absent:
  "\<forall>kv \<in> set (kvs st). Key kv \<noteq> path n [''backends'', b, ''backend''] \<Longrightarrow>
     \<exists>err. fst (GetBackend n (BackendKey b) st) = Inl err"
  using getVal_absent [of st "path n [''backends'', b, ''backend'']"]
  by (auto simp: GetBackend_def split: prod.splits sum.splits)

lemma UpsertFrontend_lookup_fails:
  "f_Id f \<noteq> [] \<Longrightarrow> GetBackend n (BackendKey (f_BackendId f)) st = (Inl err, st') \<Longrightarrow>
     UpsertFrontend n f ttl st = (Some err, st')"
  by (simp add: UpsertFrontend_def)

lemma UpsertFrontend_success_lookup:
  "fst (UpsertFrontend n f ttl st) = None \<Longrightarrow>
     \<exists>b. fst (GetBackend n (BackendKey (f_BackendId f)) st) = Inr b"
  by (auto simp: UpsertFrontend_def split: if_splits prod.splits sum.splits)

text \<open>
  Claim C6, as the code has it. \<open>UpsertFrontend\<close> succeeds only if the record of the
  backend that the frontend references exists. When that record is absent,
  \<open>UpsertFrontend\<close> returns an error and writes nothing: the records and the revision
  are unchanged. The error is the failure of the backend lookup, and the lookup is
  the only request sent, except that an empty frontend id is rejected first, with an
  \<open>InvalidFormatError\<close> and no request at all. The check comes before the write:
  whenever the lookup fails, for whatever reason, \<open>UpsertFrontend\<close> returns the error
  of the lookup in the state the lookup left.
\<close>

theorem UpsertFrontend_needs_backend:
  "(fst (UpsertFrontend n f ttl st) = None \<longrightarrow>
      (\<exists>kv \<in> set (kvs st). Key kv = path n [''backends'', f_BackendId f, ''backend''])) \<and>
   ((\<forall>kv \<in> set (kvs st). Key kv \<noteq> path n [''backends'', f_BackendId f, ''backend'']) \<longrightarrow>
      (\<exists>err. fst (UpsertFrontend n f ttl st) = Some err) \<and>
      kvs (snd (UpsertFrontend n f ttl st)) = kvs st \<and>
      revision (snd (UpsertFrontend n f ttl st)) = revision st \<and>
      (if f_Id f = []
       then UpsertFrontend n f ttl st =
              (Some (InvalidFormatError ''frontend id can not be empty''), st)
       else (\<exists>err st'. GetBackend n (BackendKey (f_BackendId f)) st = (Inl err, st') \<and>
               UpsertFrontend n f ttl st = (Some err, st') \<and>
               calls st' = calls st @ [ReqGet (path n [''backends'', f_BackendId f, ''backend''])]))) \<and>
   (f_Id f \<noteq> [] \<and> GetBackend n (BackendKey (f_BackendId f)) st = (Inl err, st') \<longrightarrow>
      UpsertFrontend n f ttl st = (Some err, st'))"
proof (intro conjI impI)
  assume ok: "fst (UpsertFrontend n f ttl st) = None"
  show "\<exists>kv \<in> set (kvs st). Key kv = path n [''backends'', f_BackendId f, ''backend'']"
  proof (rule ccontr)
    assume "\<not> ?thesis"
    then have "\<exists>err. fst (GetBackend n (BackendKey (f_BackendId f)) st) = Inl err"
      using GetBackend_absent [of st n "f_BackendId f"] by blast
    with UpsertFrontend_success_lookup [OF ok] show False by auto
  qed
next
  assume absent: "\<forall>kv \<in> set (kvs st). Key kv \<noteq> path n [''backends'', f_BackendId f, ''backend'']"
  obtain r st' where gb: "GetBackend n (BackendKey (f_BackendId f)) st = (r, st')"
    by (cases "GetBackend n (BackendKey (f_BackendId f)) st")
  from GetBackend_absent [OF absent] gb obtain err where r: "r = Inl err" by auto
  note fr = GetBackend_frame [OF gb]
  show "\<exists>err. fst (UpsertFrontend n f ttl st) = Some err"
    using gb r by (cases "f_Id f = []") (simp_all add: UpsertFrontend_def)
  show "kvs (snd (UpsertFrontend n f ttl st)) = kvs st"
    using gb r fr by (cases "f_Id f = []") (simp_all add: UpsertFrontend_def)
  show "revision (snd (UpsertFrontend n f ttl st)) = revision st"
    using gb r fr by (cases "f_Id f = []") (simp_all add: UpsertFrontend_def)
  show "if f_Id f = []
       then UpsertFrontend n f ttl st =
              (Some (InvalidFormatError ''frontend id can not be empty''), st)
       else (\<exists>err st'. GetBackend n (BackendKey (f_BackendId f)) st = (Inl err, st') \<and>
               UpsertFrontend n f ttl st = (Some err, st') \<and>
               calls st' = calls st @ [ReqGet (path n [''backends'', f_BackendId f, ''backend''])])"
    using gb r fr by (cases "f_Id f = []") (simp_all add: UpsertFrontend_def)
next
  assume "f_Id f \<noteq> [] \<and> GetBackend n (BackendKey (f_BackendId f)) st = (Inl err, st')"
  then show "UpsertFrontend n f ttl st = (Some err, st')"
    by (simp add: UpsertFrontend_lookup_fails)
qed

theorem UpsertFrontend_needs_backend_witness:
  "kvs (storeOf []) = [] \<and>
   GetBackend exampleEngine (BackendKey ''b1'') (storeOf []) =
     (Inl (NotFoundError ''Key not found''),
      (storeOf [])\<lparr>calls := [ReqGet ''/vulcand/backends/b1/backend'']\<rparr>) \<and>
   UpsertFrontend exampleEngine \<lparr>f_Id = ''f1'', f_BackendId = ''b1'', f_Route = []\<rparr> 0 (storeOf []) =
     (Some (NotFoundError ''Key not found''),
      (storeOf [])\<lparr>calls := [ReqGet ''/vulcand/backends/b1/backend'']\<rparr>) \<and>
   fst (UpsertFrontend exampleEngine \<lparr>f_Id = ''f1'', f_BackendId = ''b1'', f_Route = []\<rparr> 0
          (storeOf [\<lparr>Key = ''/vulcand/backends/b1/backend'', Value = ''http''\<rparr>])) = None \<and>
   \<lparr>Key = path exampleEngine [''backends'', ''b1'', ''backend''], Value = ''http''\<rparr>
     \<in> set (kvs (storeOf [\<lparr>Key = ''/vulcand/backends/b1/backend'', Value = ''http''\<rparr>]))"
proof -
  let ?f = "\<lparr>f_Id = ''f1'', f_BackendId = ''b1'', f_Route = []\<rparr>"
  have gb: "GetBackend exampleEngine (BackendKey ''b1'') (storeOf []) =
     (Inl (NotFoundError ''Key not found''),
      (storeOf [])\<lparr>calls := [ReqGet ''/vulcand/backends/b1/backend'']\<rparr>)"
    by code_simp
  have ok: "fst (UpsertFrontend exampleEngine ?f 0
          (storeOf [\<lparr>Key = ''/vulcand/backends/b1/backend'', Value = ''http''\<rparr>])) = None"
    by code_simp
  have absent: "\<forall>kv \<in> set (kvs (storeOf [])). Key kv \<noteq> path exampleEngine [''backends'', ''b1'', ''backend'']"
    by (simp add: storeOf_def)
  show ?thesis
    using UpsertFrontend_needs_backend
        [of exampleEngine ?f 0 "storeOf []" "NotFoundError ''Key not found''"
            "(storeOf [])\<lparr>calls := [ReqGet ''/vulcand/backends/b1/backend'']\<rparr>"]
      UpsertFrontend_needs_backend
        [of exampleEngine ?f 0 "storeOf [\<lparr>Key = ''/vulcand/backends/b1/backend'', Value = ''http''\<rparr>]"]
      gb ok absent
    by (simp add: storeOf_def path_def)
qed

text \<open>
  Claim C6 as stated fails for a frontend with an empty id: the backend is absent and
  its lookup would fail with \<open>NotFoundError\<close>, but \<open>UpsertFrontend\<close> returns the
  \<open>InvalidFormatError\<close> of its first guard and never looks the backend up.
\<close>

theorem UpsertFrontend_empty_id_counterexample:
  "fst (GetBackend exampleEngine (BackendKey ''b1'') (storeOf [])) =
     Inl (NotFoundError ''Key not found'') \<and>
   UpsertFrontend exampleEngine \<lparr>f_Id = [], f_BackendId = ''b1'', f_Route = []\<rparr> 0 (storeOf []) =
     (Some (InvalidFormatError ''frontend id can not be empty''), storeOf [])"
  by code_simp

section \<open>Deleting a backend\<close>

text \<open>
  With \<open>skipMiddlewares\<close> set, the loop of \<open>parseFrontends\<close> leaves at its \<open>break\<close>
  before it appends the frontend it has just decoded, so \<open>GetFrontends\<close> never lists
  a frontend and \<open>backendUsedBy\<close> never finds one.
\<close>

lemma parseFrontends_loop_skip:
  "parseFrontends_loop n keyValues [True] rest acc = Inr fs \<Longrightarrow> fs = acc"
  by (induction rest arbitrary: acc) (auto split: if_splits sum.splits)

lemma GetFrontends_lists_nothing: "fst (GetFrontends n st) = Inr fs \<Longrightarrow> fs = []"
  by (auto simp: GetFrontends_def parseFrontends_def split: prod.splits sum.splits
        dest: parseFrontends_loop_skip)

lemma backendUsedBy_finds_nothing: "fst (backendUsedBy n bk st) = Inr fs \<Longrightarrow> fs = []"
proof (cases bk)
  case (BackendKey b)
  assume r: "fst (backendUsedBy n bk st) = Inr fs"
  obtain res st' where g: "GetFrontends n st = (res, st')"
    by (cases "GetFrontends n st")
  show ?thesis
  proof (cases res)
    case (Inl err)
    with r g BackendKey show ?thesis by (simp add: backendUsedBy_def)
  next
    case (Inr all)
    with g GetFrontends_lists_nothing [of n st all] have "all = []" by simp
    with r g Inr BackendKey show ?thesis by (simp add: backendUsedBy_def)
  qed
qed

text \<open>
  Claim C4 at a store where frontend \<open>f1\<close> references backend \<open>b1\<close>: the claim has
  \<open>DeleteBackend\<close> rejected with no key deleted, but the code returns nil and deletes
  the record of the backend and of its server.
\<close>

theorem DeleteBackend_ignores_references:
  "fst (GetFrontend exampleEngine (FrontendKey ''f1'') referencedStore) =
     Inr \<lparr>f_Id = ''f1'', f_BackendId = ''b1'', f_Route = []\<rparr> \<and>
   DeleteBackend exampleEngine (BackendKey ''b1'') referencedStore =
     (None,
      referencedStore
        \<lparr>kvs := [\<lparr>Key = ''/vulcand/frontends/f1/frontend'', Value = ''b1''\<rparr>],
         revision := 2,
         calls := [ReqGetPrefix ''/vulcand/frontends'', ReqDeletePrefix ''/vulcand/backends/b1'']\<rparr>)"
  by code_simp

section \<open>Frontends in the snapshot\<close>

text \<open>
  \<open>parseFrontends\<close> takes a record for the container of a frontend when the segment
  before the last is \<open>frontend\<close>, and the last segment for the id. In the key that
  \<open>UpsertFrontend\<close> writes the two are the other way round, so the test holds only
  for a frontend whose id is \<open>frontend\<close>.
\<close>

lemma frontend_key_segments:
  "CHR ''/'' \<notin> set f \<Longrightarrow>
     suffix (path n [''frontends'', f, ''frontend'']) = ''frontend'' \<and>
     suffix (prefix (path n [''frontends'', f, ''frontend''])) = f"
proof -
  assume f: "CHR ''/'' \<notin> set f"
  have p1: "path n [''frontends'', f, ''frontend''] = path n [''frontends'', f] @ ''/'' @ ''frontend''"
    using path_snoc [of n "[''frontends'', f]" "''frontend''"] by simp
  have p2: "path n [''frontends'', f] = path n [''frontends''] @ ''/'' @ f"
    using path_snoc [of n "[''frontends'']" f] by simp
  have s1: "suffix (path n [''frontends'', f] @ ''/'' @ ''frontend'') = ''frontend''"
    by (rule suffix_join) simp
  have s2: "prefix (path n [''frontends'', f] @ ''/'' @ ''frontend'') = path n [''frontends'', f]"
    by (rule prefix_join) simp
  have s3: "suffix (path n [''frontends''] @ ''/'' @ f) = f"
    using f by (rule suffix_join)
  show ?thesis
    using s1 s2 s3 by (simp only: p1) (simp only: p2)
qed

text \<open>
  Claim C2 at a sorted listing with the frontend \<open>f1\<close> and its two middlewares: the
  claim has a \<open>FrontendSpec\<close> for \<open>f1\<close> with two middlewares in the snapshot, but the
  snapshot has no frontend at all.
\<close>

theorem GetSnapshot_misses_frontend:
  "GetSnapshot exampleEngine frontendStore =
     (Inr \<lparr>Index = 1, FrontendSpecs = [], BackendSpecs = [], Hosts = [], Listeners = []\<rparr>,
      frontendStore\<lparr>calls := [ReqGetPrefix ''/vulcand'']\<rparr>)"
  by code_simp

end
